theory Spec2Isabelle
  imports Complex_Main "HOL-Library.Word" "HOL-Library.Char_ord" "HOL-Library.List_Lexorder"
begin

text \<open>
  The repository is a web application (\<open>audio-analysis-webapp\<close>: \<open>server.js\<close> and the
  scripts of its pages), the Terraform configuration that deploys it together with the
  analysis function, and the analysis function itself. The theory embeds the upload
  filter, the document identifier, the upload and results endpoints, the rendering of the
  results page and the event trigger from their sources. The source of the analysis
  function is not among the files; of it the theory holds only the record of a stored
  analysis, as the web application reads it. The earlier copy of the server has the same
  filter and the same identifier; it stores the file without the prefix \<open>uploads/\<close>.
\<close>

section \<open>JavaScript strings and the library functions the web application calls\<close>

text \<open>
  A JavaScript string is modelled as a \<^typ>\<open>string\<close>, one \<^typ>\<open>char\<close> per code unit, for
  code units up to 255 (Latin-1). The order on \<^typ>\<open>string\<close> is the lexicographic order of
  the code units.
\<close>

definition toLowerCase_char :: "char \<Rightarrow> char" where
  \<comment> \<open>The lower-case mapping of the Latin-1 code points: A-Z and the accented capitals
      0xC0-0xDE (0xD7, the multiplication sign, has no case).\<close>
  "toLowerCase_char c =
     (let n = (of_char c :: nat)
      in if (65 \<le> n \<and> n \<le> 90) \<or> (192 \<le> n \<and> n \<le> 222 \<and> n \<noteq> 215)
         then char_of (n + 32) else c)"

definition toLowerCase :: "string \<Rightarrow> string" where
  "toLowerCase s = map toLowerCase_char s"

definition replace_all :: "char \<Rightarrow> char \<Rightarrow> string \<Rightarrow> string" where
  \<comment> \<open>\<open>s.replace(/c/g, d)\<close> for a one-character pattern and replacement.\<close>
  "replace_all c d s = map (\<lambda>x. if x = c then d else x) s"

fun replace_first :: "char \<Rightarrow> char \<Rightarrow> string \<Rightarrow> string" where
  \<comment> \<open>\<open>s.replace(c, d)\<close> with a string pattern: the first occurrence only.\<close>
  "replace_first c d [] = []"
| "replace_first c d (x # xs) = (if x = c then d # xs else x # replace_first c d xs)"

definition slice :: "string \<Rightarrow> nat \<Rightarrow> nat \<Rightarrow> string" where
  "slice s start stop = take (stop - start) (drop start s)"

subsection \<open>\<open>path.extname\<close> (Node.js, POSIX)\<close>

text \<open>
  Node's \<open>path.extname\<close> scans the path from its end: trailing slashes are skipped, the
  scan stops at the slash before the last path component, the first dot met is the start
  of the extension, and \<open>preDotState\<close> records what stands before that dot in the
  component (0: nothing yet, 1: only dots, -1: some other character).
\<close>

record extname_state =
  startDot :: int
  startPart :: int
  endIdx :: int
  matchedSlash :: bool
  preDotState :: int

fun extname_loop :: "string \<Rightarrow> nat \<Rightarrow> extname_state \<Rightarrow> extname_state" where
  \<comment> \<open>\<open>extname_loop path (i + 1) st\<close> is the loop body at index \<open>i\<close>, then the rest of the
      loop down to index 0.\<close>
  "extname_loop path 0 st = st"
| "extname_loop path (Suc i) st =
     (let code = path ! i in
      if code = CHR ''/'' then
        (if \<not> matchedSlash st then st\<lparr>startPart := int i + 1\<rparr>
         else extname_loop path i st)
      else
        (let st1 = (if endIdx st = - 1 then st\<lparr>endIdx := int i + 1, matchedSlash := False\<rparr>
                    else st);
             st2 = (if code = CHR ''.'' then
                      (if startDot st1 = - 1 then st1\<lparr>startDot := int i\<rparr>
                       else if preDotState st1 \<noteq> 1 then st1\<lparr>preDotState := 1\<rparr>
                       else st1)
                    else if startDot st1 \<noteq> - 1 then st1\<lparr>preDotState := - 1\<rparr>
                    else st1)
         in extname_loop path i st2))"

definition extname :: "string \<Rightarrow> string" where
  "extname path =
     (let st = extname_loop path (length path)
                 \<lparr>startDot = - 1, startPart = 0, endIdx = - 1, matchedSlash = True,
                  preDotState = 0\<rparr>
      in if startDot st = - 1 \<or> endIdx st = - 1 \<or> preDotState st = 0 \<or>
            (preDotState st = 1 \<and> startDot st = endIdx st - 1 \<and>
             startDot st = startPart st + 1)
         then ''''
         else slice path (nat (startDot st)) (nat (endIdx st)))"

section \<open>The web application: \<open>audio-analysis-webapp/server.js\<close>\<close>

subsection \<open>Configuration and the upload filter\<close>

definition ALLOWED_EXTENSIONS :: "string list" where
  "ALLOWED_EXTENSIONS = [''.mp3'', ''.wav'', ''.flac'', ''.m4a'', ''.aac'']"

definition MAX_FILE_SIZE :: nat where
  "MAX_FILE_SIZE = 50 * 1024 * 1024"

definition file_type_message :: string where
  "file_type_message = ''File type not allowed. Use MP3, WAV, FLAC, M4A, or AAC''"

definition fileFilter :: "string \<Rightarrow> string + bool" where
  \<comment> \<open>The filter's callback: \<open>cb(null, true)\<close> is \<open>Inr True\<close>, \<open>cb(new Error(m))\<close> is
      \<open>Inl m\<close>. The argument is \<open>file.originalname\<close>.\<close>
  "fileFilter originalname =
     (let ext = toLowerCase (extname originalname)
      in if ext \<in> set ALLOWED_EXTENSIONS then Inr True else Inl file_type_message)"

definition docId :: "string \<Rightarrow> string" where
  \<comment> \<open>\<open>filename.replace(/\//g, "_").replace(/\./g, "_")\<close>\<close>
  "docId filename = replace_all (CHR ''.'') (CHR ''_'') (replace_all (CHR ''/'') (CHR ''_'') filename)"

definition docId_spec :: "string \<Rightarrow> string" where
  \<comment> \<open>The identifier as the specification words it: every slash and every dot of the
      file name becomes an underscore, every other character stays.\<close>
  "docId_spec filename =
     map (\<lambda>c. if c = CHR ''/'' \<or> c = CHR ''.'' then CHR ''_'' else c) filename"

subsection \<open>\<open>POST /upload\<close>\<close>

fun nat_str :: "nat \<Rightarrow> string" where
  \<comment> \<open>The decimal digits of a non-negative integer, as \<open>`${n}`\<close> prints it.\<close>
  "nat_str n =
     (if n < 10 then [char_of (48 + n)] else nat_str (n div 10) @ [char_of (48 + n mod 10)])"

record uploaded_file =
  originalname :: string
  mimetype :: string
  buffer :: "8 word list"

record multer_options =
  limits_fileSize :: nat
  opt_fileFilter :: "string \<Rightarrow> string + bool"

definition upload :: multer_options where
  \<comment> \<open>\<open>multer({storage: memoryStorage(), limits: {fileSize: MAX_FILE_SIZE}, fileFilter})\<close>\<close>
  "upload = \<lparr>limits_fileSize = MAX_FILE_SIZE, opt_fileFilter = fileFilter\<rparr>"

definition multer_single ::
  "multer_options \<Rightarrow> uploaded_file option \<Rightarrow> string + uploaded_file option" where
  \<comment> \<open>\<open>upload.single("file")\<close>: the request may carry no file part; the filter is asked when
      the part's header arrives; \<open>limits.fileSize\<close> is, as multer documents it, the
      maximal file size in bytes, and a longer file ends the request with multer's error
      \<open>LIMIT_FILE_SIZE\<close>, whose message is "File too large". \<open>Inl m\<close> is \<open>next(err)\<close> with
      \<open>err.message = m\<close>; \<open>Inr\<close> holds \<open>req.file\<close>.\<close>
  "multer_single opts part =
     (case part of
        None \<Rightarrow> Inr None
      | Some f \<Rightarrow>
          (case opt_fileFilter opts (originalname f) of
             Inl m \<Rightarrow> Inl m
           | Inr False \<Rightarrow> Inr None
           | Inr True \<Rightarrow>
               if length (buffer f) > limits_fileSize opts then Inl ''File too large''
               else Inr (Some f)))"

datatype storage_outcome =
    Finish                \<comment> \<open>the blob stream emits \<open>finish\<close>\<close>
  | StreamError string    \<comment> \<open>the blob stream emits \<open>error\<close>\<close>
  | Throws string         \<comment> \<open>a storage call throws inside the handler's \<open>try\<close>\<close>

record upload_env =
  date_now :: nat              \<comment> \<open>\<open>Date.now()\<close>\<close>
  randomString :: string       \<comment> \<open>\<open>Math.random().toString(36).substring(7)\<close>\<close>
  storage :: storage_outcome

datatype upload_body =
    UploadOk string string string   \<comment> \<open>\<open>{success: true, filename, message, doc_id}\<close>\<close>
  | UploadError string              \<comment> \<open>\<open>{error}\<close>\<close>

record upload_response =
  upload_status :: nat
  upload_json :: upload_body

definition upload_filename :: "upload_env \<Rightarrow> uploaded_file \<Rightarrow> string" where
  \<comment> \<open>\<open>`uploads/${timestamp}_${randomString}${ext}`\<close>\<close>
  "upload_filename env f =
     ''uploads/'' @ nat_str (date_now env) @ ''_'' @ randomString env @ extname (originalname f)"

definition post_upload ::
  "multer_options \<Rightarrow> upload_env \<Rightarrow> uploaded_file option \<Rightarrow>
   upload_response \<times> (string \<times> 8 word list) list" where
  \<comment> \<open>The response, and the objects written to the bucket (name and content). An error
      of the middleware reaches the error handler at the end of the file, which answers
      500 with the error's message.\<close>
  "post_upload opts env part =
     (case multer_single opts part of
        Inl m \<Rightarrow> (\<lparr>upload_status = 500, upload_json = UploadError m\<rparr>, [])
      | Inr None \<Rightarrow> (\<lparr>upload_status = 400, upload_json = UploadError ''No file provided''\<rparr>, [])
      | Inr (Some f) \<Rightarrow>
          (let filename = upload_filename env f in
           case storage env of
             Throws m \<Rightarrow> (\<lparr>upload_status = 500, upload_json = UploadError m\<rparr>, [])
           | StreamError m \<Rightarrow>
               (\<lparr>upload_status = 500, upload_json = UploadError (''Upload failed: '' @ m)\<rparr>, [])
           | Finish \<Rightarrow>
               (\<lparr>upload_status = 200,
                 upload_json = UploadOk filename
                   ''File uploaded successfully! Analysis will begin shortly.'' (docId filename)\<rparr>,
                [(filename, buffer f)])))"

subsection \<open>The stored analyses and \<open>GET /api/results\<close>\<close>

text \<open>
  A document of the collection \<open>audio_analyses\<close>, with the fields the pages read. A field
  that is absent (or \<open>null\<close>) is \<open>None\<close>. Numbers are real numbers. The stored
  \<open>processed_at\<close> is a string or a Firestore timestamp (milliseconds since the epoch);
  the served one is a string.
\<close>

record features =
  spectral_centroid_mean :: "real option"
  rms_energy_mean :: "real option"
  zero_crossing_rate_mean :: "real option"
  mfcc :: "real list option"

record mood_indicators =
  energy_level :: "string option"
  brightness :: "string option"
  rhythmic_stability :: "string option"

datatype stored_time = TimeString string | Timestamp int

record 't analysis =
  file_name :: "string option"
  duration_seconds :: "real option"
  tempo_bpm :: "real option"
  estimated_key :: "string option"
  features :: "features option"
  mood_indicators :: "mood_indicators option"
  processed_at :: "'t option"
  error :: "string option"

record firestore_doc =
  doc_id :: string
  doc_data :: "stored_time analysis option"   \<comment> \<open>\<open>None\<close>: \<open>doc.data()\<close> throws\<close>

record result =
  result_id :: string
  result_data :: "string analysis"

definition truthy :: "string option \<Rightarrow> bool" where
  \<comment> \<open>JavaScript's truthiness of a string-valued field: absent, \<open>null\<close> and the empty
      string are falsy.\<close>
  "truthy v = (case v of None \<Rightarrow> False | Some s \<Rightarrow> s \<noteq> '''')"

definition or_empty :: "string option \<Rightarrow> string" where
  \<comment> \<open>\<open>v || ""\<close>\<close>
  "or_empty v = (case v of None \<Rightarrow> '''' | Some s \<Rightarrow> s)"

definition convert_processed_at :: "(int \<Rightarrow> string) \<Rightarrow> stored_time option \<Rightarrow> string option" where
  \<comment> \<open>A value with a \<open>toDate\<close> method becomes \<open>toDate().toISOString()\<close>; the first argument
      is that conversion.\<close>
  "convert_processed_at toISOString v =
     (case v of
        None \<Rightarrow> None
      | Some (TimeString s) \<Rightarrow> Some s
      | Some (Timestamp t) \<Rightarrow> Some (toISOString t))"

definition to_result :: "(int \<Rightarrow> string) \<Rightarrow> string \<Rightarrow> stored_time analysis \<Rightarrow> result" where
  \<comment> \<open>\<open>{id: doc.id, ...data}\<close>, for data without a field \<open>id\<close> of its own.\<close>
  "to_result toISOString i d =
     \<lparr>result_id = i,
      result_data =
        \<lparr>file_name = file_name d, duration_seconds = duration_seconds d,
         tempo_bpm = tempo_bpm d, estimated_key = estimated_key d, features = features d,
         mood_indicators = mood_indicators d,
         processed_at = convert_processed_at toISOString (processed_at d),
         error = error d\<rparr>\<rparr>"

fun collect_results :: "(int \<Rightarrow> string) \<Rightarrow> firestore_doc list \<Rightarrow> result list" where
  \<comment> \<open>\<open>snapshot.forEach\<close>: a document whose processing throws is skipped.\<close>
  "collect_results toISOString [] = []"
| "collect_results toISOString (d # ds) =
     (case doc_data d of
        None \<Rightarrow> collect_results toISOString ds
      | Some a \<Rightarrow> to_result toISOString (doc_id d) a # collect_results toISOString ds)"

fun insert_by :: "('a \<Rightarrow> 'a \<Rightarrow> int) \<Rightarrow> 'a \<Rightarrow> 'a list \<Rightarrow> 'a list" where
  "insert_by cmp x [] = [x]"
| "insert_by cmp x (y # ys) =
     (if cmp x y \<le> 0 then x # y # ys else y # insert_by cmp x ys)"

definition array_sort :: "('a \<Rightarrow> 'a \<Rightarrow> int) \<Rightarrow> 'a list \<Rightarrow> 'a list" where
  \<comment> \<open>\<open>Array.prototype.sort(cmp)\<close>: a stable sort by the comparator, \<open>a\<close> before \<open>b\<close> when
      \<open>cmp(a, b) \<le> 0\<close>.\<close>
  "array_sort cmp xs = foldr (insert_by cmp) xs []"

definition date_key :: "result \<Rightarrow> string" where
  \<comment> \<open>\<open>r.processed_at || ""\<close>\<close>
  "date_key r = or_empty (processed_at (result_data r))"

definition by_date :: "(string \<Rightarrow> string \<Rightarrow> int) \<Rightarrow> result \<Rightarrow> result \<Rightarrow> int" where
  \<comment> \<open>The comparator of the handler: \<open>dateB.localeCompare(dateA)\<close>. The first argument is
      the platform's \<open>localeCompare\<close>, receiver first.\<close>
  "by_date localeCompare a b = localeCompare (date_key b) (date_key a)"

datatype fetch = FetchFailed string | Snapshot "firestore_doc list"

record results_response =
  results_status :: nat
  results_json :: "result list"

definition api_results ::
  "(string \<Rightarrow> string \<Rightarrow> int) \<Rightarrow> (int \<Rightarrow> string) \<Rightarrow> fetch \<Rightarrow> results_response" where
  \<comment> \<open>\<open>res.json\<close> answers with status 200.\<close>
  "api_results localeCompare toISOString fetched =
     (case fetched of
        FetchFailed m \<Rightarrow> \<lparr>results_status = 200, results_json = []\<rparr>
      | Snapshot docs \<Rightarrow>
          \<lparr>results_status = 200,
           results_json = array_sort (by_date localeCompare) (collect_results toISOString docs)\<rparr>)"

definition localeCompare_alnum :: "string \<Rightarrow> string \<Rightarrow> int" where
  \<comment> \<open>\<open>x.localeCompare(y)\<close> on strings of ASCII letters and digits, as the platform's
      collation (ICU, root and English) orders them: by the letters and digits without
      regard to case first, digits before letters; strings equal up to case are then
      ordered by their first difference, the lower-case letter first.\<close>
  "localeCompare_alnum x y =
     (let px = toLowerCase x; py = toLowerCase y
      in if px < py then - 1 else if py < px then 1
         else if x = y then 0 else if x < y then 1 else - 1)"

definition compare_code_units :: "string \<Rightarrow> string \<Rightarrow> int" where
  \<comment> \<open>The comparison of two strings by their code units, lexicographically.\<close>
  "compare_code_units x y = (if x < y then - 1 else if x = y then 0 else 1)"

section \<open>The results page: \<open>results.js\<close>\<close>

text \<open>
  The page reads the list that \<open>GET /api/results\<close> serves. Two functions of the browser are
  parameters of the model: \<open>toLocaleString\<close>, which is \<open>new Date(t).toLocaleString()\<close>, and
  \<open>toFixed\<close>, which is \<open>x.toFixed(digits)\<close>, digits first.
\<close>

definition escapeHtml_char :: "char \<Rightarrow> string" where
  \<comment> \<open>What reading \<open>innerHTML\<close> makes of one character of a text node.\<close>
  "escapeHtml_char c =
     (if c = CHR ''&'' then ''&amp;''
      else if c = CHR ''<'' then ''&lt;''
      else if c = CHR ''>'' then ''&gt;''
      else if c = char_of (160 :: nat) then ''&nbsp;''
      else [c])"

definition escapeHtml :: "string option \<Rightarrow> string" where
  \<comment> \<open>\<open>div.textContent = text; return div.innerHTML\<close>: an absent text gives the empty
      string.\<close>
  "escapeHtml text = (case text of None \<Rightarrow> '''' | Some s \<Rightarrow> concat (map escapeHtml_char s))"

definition formatTimestamp :: "(string \<Rightarrow> string) \<Rightarrow> string \<Rightarrow> string" where
  "formatTimestamp toLocaleString timestamp = toLocaleString timestamp"

definition js_trunc :: "real \<Rightarrow> int" where
  "js_trunc x = (if 0 \<le> x then \<lfloor>x\<rfloor> else \<lceil>x\<rceil>)"

definition js_rem :: "real \<Rightarrow> real \<Rightarrow> real" where
  \<comment> \<open>\<open>x % y\<close>: the remainder has the sign of \<open>x\<close>.\<close>
  "js_rem x y = x - y * of_int (js_trunc (x / y))"

definition int_str :: "int \<Rightarrow> string" where
  "int_str i = (if i < 0 then ''-'' @ nat_str (nat (- i)) else nat_str (nat i))"

definition padStart :: "nat \<Rightarrow> char \<Rightarrow> string \<Rightarrow> string" where
  "padStart n c s = replicate (n - length s) c @ s"

definition formatDuration :: "real option \<Rightarrow> string" where
  "formatDuration seconds =
     (case seconds of
        None \<Rightarrow> ''N/A''
      | Some s \<Rightarrow>
          if s = 0 then ''N/A''
          else (let mins = \<lfloor>s / 60\<rfloor>;
                    secs = \<lfloor>js_rem s 60\<rfloor>
                in int_str mins @ '':'' @ padStart 2 (CHR ''0'') (int_str secs)))"

definition fixed_or_na :: "(nat \<Rightarrow> real \<Rightarrow> string) \<Rightarrow> nat \<Rightarrow> real option \<Rightarrow> string" where
  \<comment> \<open>\<open>x?.toFixed(digits) || "N/A"\<close>\<close>
  "fixed_or_na toFixed digits x =
     (case x of
        None \<Rightarrow> ''N/A''
      | Some v \<Rightarrow> (let s = toFixed digits v in if s = '''' then ''N/A'' else s))"

definition string_or_na :: "string option \<Rightarrow> string" where
  \<comment> \<open>\<open>v || "N/A"\<close>\<close>
  "string_or_na v = (if truthy v then or_empty v else ''N/A'')"

definition createResultCard ::
  "(nat \<Rightarrow> real \<Rightarrow> string) \<Rightarrow> (string \<Rightarrow> string) \<Rightarrow> result \<Rightarrow> string" where
  \<open>createResultCard toFixed toLocaleString r =
     (let result = result_data r;
          mood = (case mood_indicators result of
                    None \<Rightarrow> \<lparr>energy_level = None, brightness = None, rhythmic_stability = None\<rparr>
                  | Some m \<Rightarrow> m);
          energyClass = replace_first (CHR '' '') (CHR ''-'') (toLowerCase (or_empty (energy_level mood)));
          brightnessClass = toLowerCase (or_empty (brightness mood))
      in ''\<newline>'' @
         ''        <div class="result-card">\<newline>'' @
         ''            <div class="file-name">'' @ escapeHtml (file_name result) @ ''</div>\<newline>'' @
         ''            \<newline>'' @
         ''            <div class="metric">\<newline>'' @
         ''                <span class="metric-label">Tempo</span>\<newline>'' @
         ''                <span class="metric-value">'' @ fixed_or_na toFixed 1 (tempo_bpm result) @ '' BPM</span>\<newline>'' @
         ''            </div>\<newline>'' @
         ''            \<newline>'' @
         ''            <div class="metric">\<newline>'' @
         ''                <span class="metric-label">Key</span>\<newline>'' @
         ''                <span class="metric-value">'' @ string_or_na (estimated_key result) @ ''</span>\<newline>'' @
         ''            </div>\<newline>'' @
         ''            \<newline>'' @
         ''            <div class="metric">\<newline>'' @
         ''                <span class="metric-label">Duration</span>\<newline>'' @
         ''                <span class="metric-value">'' @ formatDuration (duration_seconds result) @ ''</span>\<newline>'' @
         ''            </div>\<newline>'' @
         ''            \<newline>'' @
         ''            '' @
         (case features result of
            Some f \<Rightarrow>
              ''\<newline>'' @
              ''            <div class="metric">\<newline>'' @
              ''                <span class="metric-label">Brightness</span>\<newline>'' @
              ''                <span class="metric-value">'' @ fixed_or_na toFixed 0 (spectral_centroid_mean f) @ '' Hz</span>\<newline>'' @
              ''            </div>\<newline>'' @
              ''            ''
          | None \<Rightarrow> '''') @ ''\<newline>'' @
         ''            \<newline>'' @
         ''            <div class="mood-badges">\<newline>'' @
         ''                '' @
         (if truthy (energy_level mood)
          then ''<span class="badge '' @ energyClass @ ''">'' @ or_empty (energy_level mood) @ ''</span>''
          else '''') @ ''\<newline>'' @
         ''                '' @
         (if truthy (brightness mood)
          then ''<span class="badge '' @ brightnessClass @ ''">'' @ or_empty (brightness mood) @ ''</span>''
          else '''') @ ''\<newline>'' @
         ''                '' @
         (if truthy (rhythmic_stability mood)
          then ''<span class="badge">'' @ or_empty (rhythmic_stability mood) @ ''</span>''
          else '''') @ ''\<newline>'' @
         ''            </div>\<newline>'' @
         ''            \<newline>'' @
         ''            '' @
         (if truthy (processed_at result)
          then ''\<newline>'' @
               ''            <div class="timestamp">Analyzed: '' @
                 formatTimestamp toLocaleString (or_empty (processed_at result)) @ ''</div>\<newline>'' @
               ''            ''
          else '''') @ ''\<newline>'' @
         ''        </div>\<newline>'' @
         ''    '')\<close>

definition createErrorCard :: "(string \<Rightarrow> string) \<Rightarrow> result \<Rightarrow> string" where
  \<open>createErrorCard toLocaleString r =
     (let result = result_data r
      in ''\<newline>'' @
         ''        <div class="result-card">\<newline>'' @
         ''            <div class="file-name">'' @ escapeHtml (file_name result) @ ''</div>\<newline>'' @
         ''            <div class="error-message">\<newline>'' @
         ''                <strong>Analysis Failed:</strong><br>\<newline>'' @
         ''                '' @ escapeHtml (error result) @ ''\<newline>'' @
         ''            </div>\<newline>'' @
         ''            '' @
         (if truthy (processed_at result)
          then ''\<newline>'' @
               ''            <div class="timestamp">Attempted: '' @
                 formatTimestamp toLocaleString (or_empty (processed_at result)) @ ''</div>\<newline>'' @
               ''            ''
          else '''') @ ''\<newline>'' @
         ''        </div>\<newline>'' @
         ''    '')\<close>

definition renderResults ::
  "(nat \<Rightarrow> real \<Rightarrow> string) \<Rightarrow> (string \<Rightarrow> string) \<Rightarrow> result list \<Rightarrow> string" where
  \<comment> \<open>The value assigned to \<open>resultsContainer.innerHTML\<close>.\<close>
  "renderResults toFixed toLocaleString results =
     concat (map (\<lambda>result.
       if truthy (error (result_data result)) then createErrorCard toLocaleString result
       else createResultCard toFixed toLocaleString result) results)"

section \<open>The event trigger: \<open>terraform/main.tf\<close>\<close>

datatype retry_policy =
  RETRY_POLICY_UNSPECIFIED | RETRY_POLICY_DO_NOT_RETRY | RETRY_POLICY_RETRY

record terraform_variables =
  bucket_name :: string             \<comment> \<open>\<open>var.bucket_name\<close>\<close>
  bucket_location :: string         \<comment> \<open>\<open>var.bucket_location\<close>\<close>
  function_sa_email :: string       \<comment> \<open>\<open>google_service_account.function_sa.email\<close>\<close>

record event_trigger =
  trigger_region :: string
  event_type :: string
  trigger_retry_policy :: retry_policy
  service_account_email :: string
  event_filters :: "(string \<times> string) list"

definition audio_analysis_event_trigger :: "terraform_variables \<Rightarrow> event_trigger" where
  \<comment> \<open>The block \<open>event_trigger\<close> of the resource \<open>google_cloudfunctions2_function.audio_analysis\<close>.\<close>
  "audio_analysis_event_trigger var =
     \<lparr>trigger_region = bucket_location var,
      event_type = ''google.cloud.storage.object.v1.finalized'',
      trigger_retry_policy = RETRY_POLICY_DO_NOT_RETRY,
      service_account_email = function_sa_email var,
      event_filters = [(''bucket'', bucket_name var)]\<rparr>"

fun deliveries :: "retry_policy \<Rightarrow> bool list \<Rightarrow> bool list" where
  \<comment> \<open>The invocations one event causes, as the provider documents the policies: the event
      is delivered; a failed invocation is followed by another delivery under
      \<open>RETRY_POLICY_RETRY\<close> only. The list argument says, for each delivery that could be
      made within the retry window, whether the function would succeed; the result lists
      the invocations made, with their outcomes.\<close>
  "deliveries policy [] = []"
| "deliveries policy (ok # later) =
     ok # (if \<not> ok \<and> policy = RETRY_POLICY_RETRY then deliveries policy later else [])"

section \<open>Example inputs\<close>

definition example_toISOString :: "int \<Rightarrow> string" where
  \<comment> \<open>Stands for \<open>toISOString\<close> in the examples: the time 0 of the epoch.\<close>
  "example_toISOString t = ''1970-01-01T00:00:00.000Z''"

definition stored ::
  "string \<Rightarrow> stored_time option \<Rightarrow> string option \<Rightarrow> stored_time analysis" where
  \<comment> \<open>A stored document without feature fields.\<close>
  "stored name t e =
     \<lparr>file_name = Some name, duration_seconds = None, tempo_bpm = None, estimated_key = None,
      features = None, mood_indicators = None, processed_at = t, error = e\<rparr>"

definition lexicographically_descending :: "result list \<Rightarrow> bool" where
  \<comment> \<open>The order of the served list as the specification words it: non-increasing
      lexicographic order of the \<open>processed_at\<close> strings, a missing one read as the empty
      string.\<close>
  "lexicographically_descending rs = sorted_wrt (\<lambda>a b. date_key b \<le> date_key a) rs"

definition mixed_case_docs :: "firestore_doc list" where
  "mixed_case_docs =
     [\<lparr>doc_id = ''1'', doc_data = Some (stored ''x.mp3'' (Some (TimeString ''a'')) (Some ''failed''))\<rparr>,
      \<lparr>doc_id = ''2'', doc_data = Some (stored ''y.mp3'' None (Some ''failed''))\<rparr>,
      \<lparr>doc_id = ''3'', doc_data = Some (stored ''z.mp3'' (Some (TimeString ''B'')) (Some ''failed''))\<rparr>]"

definition dated_docs :: "firestore_doc list" where
  "dated_docs =
     [\<lparr>doc_id = ''1'', doc_data = Some (stored ''x.mp3'' None (Some ''failed''))\<rparr>,
      \<lparr>doc_id = ''2'', doc_data = Some (stored ''y.mp3'' (Some (TimeString ''2025-09-10T08:30:00'')) None)\<rparr>,
      \<lparr>doc_id = ''3'', doc_data = None\<rparr>,
      \<lparr>doc_id = ''4'', doc_data = Some (stored ''z.mp3'' (Some (Timestamp 0)) None)\<rparr>,
      \<lparr>doc_id = ''5'', doc_data = Some (stored ''w.mp3'' (Some (TimeString ''2025-09-11T07:00:00'')) None)\<rparr>]"

definition empty_error_result :: result where
  \<comment> \<open>The record of a failed analysis whose failure has an empty message.\<close>
  "empty_error_result =
     \<lparr>result_id = ''uploads_1_a_mp3'',
      result_data =
        \<lparr>file_name = Some ''a.mp3'', duration_seconds = None, tempo_bpm = None,
         estimated_key = None, features = None, mood_indicators = None,
         processed_at = Some ''2025-01-01T00:00:00'', error = Some ''''\<rparr>\<rparr>"

definition oversized_file :: uploaded_file where
  \<comment> \<open>A file one byte longer than the cap.\<close>
  "oversized_file =
     \<lparr>originalname = ''a.mp3'', mimetype = ''audio/mpeg'', buffer = replicate 52428801 0\<rparr>"

definition example_env :: upload_env where
  "example_env = \<lparr>date_now = 1757500000000, randomString = ''k3x9q'', storage = Finish\<rparr>"

section \<open>Properties of the upload endpoint\<close>

lemma extname_examples:
  "extname ''index.html'' = ''.html''"
  "extname ''index.coffee.md'' = ''.md''"
  "extname ''index.'' = ''.''"
  "extname ''index'' = ''''"
  "extname ''.index'' = ''''"
  "extname ''.index.md'' = ''.md''"
  by code_simp+

lemma fileFilter_cases: "fileFilter n = Inr True \<or> fileFilter n = Inl file_type_message"
  by (simp add: fileFilter_def Let_def)

lemma fileFilter_examples:
  "fileFilter ''song.mp3'' = Inr True"
  "fileFilter ''take 2.final.FLAC'' = Inr True"
  "fileFilter ''notes.txt'' = Inl file_type_message"
  "fileFilter ''.mp3'' = Inl file_type_message"
  "fileFilter ''mp3'' = Inl file_type_message"
  by code_simp+

text \<open>
  The extension of a name without slashes: for \<open>stem.ext\<close>, where \<open>ext\<close> holds no dot and
  \<open>stem\<close> is not empty, \<open>path.extname\<close> is \<open>.ext\<close>; the name \<open>..\<close> is the one exception.
\<close>

lemma extname_loop_extension:
  assumes "\<And>i. i < k \<Longrightarrow> path ! (j + i) \<noteq> CHR ''/'' \<and> path ! (j + i) \<noteq> CHR ''.''"
  shows "extname_loop path (j + k)
           \<lparr>startDot = - 1, startPart = 0, endIdx = e, matchedSlash = m, preDotState = 0\<rparr> =
         extname_loop path j
           \<lparr>startDot = - 1, startPart = 0,
            endIdx = (if k = 0 \<or> e \<noteq> - 1 then e else int (j + k)),
            matchedSlash = (if k = 0 \<or> e \<noteq> - 1 then m else False), preDotState = 0\<rparr>"
  using assms
proof (induction k arbitrary: e m)
  case 0
  then show ?case by simp
next
  case (Suc k)
  have here: "path ! (j + k) \<noteq> CHR ''/''" "path ! (j + k) \<noteq> CHR ''.''"
    using Suc.prems[of k] by simp_all
  have rest: "\<And>i. i < k \<Longrightarrow> path ! (j + i) \<noteq> CHR ''/'' \<and> path ! (j + i) \<noteq> CHR ''.''"
    using Suc.prems by simp
  show ?case
    using here Suc.IH[OF rest] by (simp add: Let_def algebra_simps)
qed

lemma extname_loop_stem:
  assumes "\<And>i. i < k \<Longrightarrow> path ! i \<noteq> CHR ''/''" "d \<noteq> - 1" "e \<noteq> - 1"
  shows "extname_loop path k
           \<lparr>startDot = d, startPart = 0, endIdx = e, matchedSlash = False, preDotState = p\<rparr> =
           \<lparr>startDot = d, startPart = 0, endIdx = e, matchedSlash = False,
            preDotState = (if k = 0 then p else if path ! 0 = CHR ''.'' then 1 else - 1)\<rparr>"
  using assms
proof (induction k arbitrary: p)
  case 0
  then show ?case by simp
next
  case (Suc k)
  have here: "path ! k \<noteq> CHR ''/''" using Suc.prems(1)[of k] by simp
  have rest: "\<And>i. i < k \<Longrightarrow> path ! i \<noteq> CHR ''/''" using Suc.prems(1) by simp
  show ?case
    using here Suc.IH[OF rest Suc.prems(2,3)] Suc.prems(2,3) by (cases "k = 0") (simp_all add: Let_def)
qed

lemma extname_stem_dot_ext:
  assumes stem: "stem \<noteq> []" "CHR ''/'' \<notin> set stem"
    and ext: "CHR ''/'' \<notin> set ext" "CHR ''.'' \<notin> set ext"
    and dots: "\<not> (stem = ''.'' \<and> ext = [])"
  shows "extname (stem @ ''.'' @ ext) = ''.'' @ ext"
proof -
  define path where "path = stem @ ''.'' @ ext"
  define n where "n = length path"
  define k where "k = length stem"
  have n: "n = (k + 1) + length ext" by (simp add: n_def k_def path_def)
  have ext_chars: "\<And>i. i < length ext \<Longrightarrow>
      path ! ((k + 1) + i) \<noteq> CHR ''/'' \<and> path ! ((k + 1) + i) \<noteq> CHR ''.''"
    using ext by (auto simp: path_def k_def nth_append dest: nth_mem)
  have stem_chars: "\<And>i. i < k \<Longrightarrow> path ! i \<noteq> CHR ''/''"
    using stem by (auto simp: path_def k_def nth_append dest: nth_mem)
  have dot: "path ! k = CHR ''.''" by (simp add: path_def k_def nth_append)
  have k_pos: "k \<noteq> 0" using stem(1) by (simp add: k_def)
  have p1: "extname_loop path n
           \<lparr>startDot = - 1, startPart = 0, endIdx = - 1, matchedSlash = True, preDotState = 0\<rparr> =
         extname_loop path (Suc k)
           \<lparr>startDot = - 1, startPart = 0,
            endIdx = (if length ext = 0 then - 1 else int n),
            matchedSlash = (if length ext = 0 then True else False), preDotState = 0\<rparr>"
    unfolding n using extname_loop_extension[of "length ext" path "k + 1" "- 1" True, OF ext_chars]
    by simp
  have p2: "extname_loop path (Suc k)
           \<lparr>startDot = - 1, startPart = 0,
            endIdx = (if length ext = 0 then - 1 else int n),
            matchedSlash = (if length ext = 0 then True else False), preDotState = 0\<rparr> =
         extname_loop path k
           \<lparr>startDot = int k, startPart = 0, endIdx = int n,
            matchedSlash = False, preDotState = 0\<rparr>"
    using dot n by (simp add: Let_def algebra_simps)
  have p3: "extname_loop path k
           \<lparr>startDot = int k, startPart = 0, endIdx = int n,
            matchedSlash = False, preDotState = 0\<rparr> =
           \<lparr>startDot = int k, startPart = 0, endIdx = int n, matchedSlash = False,
            preDotState = (if path ! 0 = CHR ''.'' then 1 else - 1)\<rparr>"
    using extname_loop_stem[of k path "int k" "int n" 0, OF stem_chars] k_pos by simp
  have not_dotdot: "\<not> (path ! 0 = CHR ''.'' \<and> int k = int n - 1 \<and> int k = 1)"
  proof
    assume a: "path ! 0 = CHR ''.'' \<and> int k = int n - 1 \<and> int k = 1"
    then have "length stem = 1" "length ext = 0" using n by (simp_all add: k_def)
    moreover from a stem(1) have "stem ! 0 = CHR ''.''" by (simp add: path_def nth_append)
    ultimately have "stem = ''.'' \<and> ext = []" by (cases stem) auto
    with dots show False by simp
  qed
  have "extname path = slice path k n"
    unfolding extname_def n_def[symmetric] p1 p2 p3 using not_dotdot by (auto simp: Let_def)
  then show ?thesis by (simp add: slice_def path_def k_def n_def)
qed

lemma fileFilter_stem_dot_ext:
  assumes "stem \<noteq> []" "CHR ''/'' \<notin> set stem" "CHR ''/'' \<notin> set ext" "CHR ''.'' \<notin> set ext"
    "ext \<noteq> []"
  shows "fileFilter (stem @ ''.'' @ ext) = Inr True \<longleftrightarrow>
           toLowerCase ext \<in> set [''mp3'', ''wav'', ''flac'', ''m4a'', ''aac'']"
  using extname_stem_dot_ext[OF assms(1-4)] assms(5)
  by (simp add: fileFilter_def ALLOWED_EXTENSIONS_def toLowerCase_def toLowerCase_char_def)

text \<open>
  Claim C3, as stated, at the file name \<open>SONG.MP3\<close>: the filter accepts the file, and its
  extension \<open>.MP3\<close> is none of the five listed extensions.
\<close>

theorem fileFilter_accepts_upper_case_extension:
  "\<not> (fileFilter ''SONG.MP3'' = Inr True \<longleftrightarrow> extname ''SONG.MP3'' \<in> set ALLOWED_EXTENSIONS)"
  by code_simp

text \<open>
  Claim C3, amended: the filter accepts a file if and only if the extension of its name,
  converted to lower case, is one of \<open>.mp3\<close>, \<open>.wav\<close>, \<open>.flac\<close>, \<open>.m4a\<close>, \<open>.aac\<close>; every
  other file is rejected with the message "File type not allowed. Use MP3, WAV, FLAC, M4A,
  or AAC".
\<close>

theorem fileFilter_accepts_iff_lower_case_extension_allowed:
  "(fileFilter name = Inr True \<longleftrightarrow>
      toLowerCase (extname name) \<in> set [''.mp3'', ''.wav'', ''.flac'', ''.m4a'', ''.aac'']) \<and>
   (fileFilter name = Inl ''File type not allowed. Use MP3, WAV, FLAC, M4A, or AAC'' \<longleftrightarrow>
      toLowerCase (extname name) \<notin> set [''.mp3'', ''.wav'', ''.flac'', ''.m4a'', ''.aac''])"
  unfolding fileFilter_def ALLOWED_EXTENSIONS_def file_type_message_def Let_def
  by (simp del: set_simps)

text \<open>
  Claim C6: the document identifier is the file name with every slash and every dot
  replaced by an underscore. It is as long as the file name, holds no slash and no dot, and
  it is the \<open>doc_id\<close> of every successful upload response, computed from the name under
  which the object was stored.
\<close>

theorem docId_replaces_slashes_and_dots:
  "docId filename = docId_spec filename \<and>
   length (docId filename) = length filename \<and>
   CHR ''/'' \<notin> set (docId filename) \<and> CHR ''.'' \<notin> set (docId filename) \<and>
   (case post_upload opts env part of
      (response, objects) \<Rightarrow>
        (case upload_json response of
           UploadOk stored_name message doc \<Rightarrow>
             doc = docId stored_name \<and> map fst objects = [stored_name]
         | UploadError m \<Rightarrow> objects = []))"
proof -
  have "docId filename = docId_spec filename"
    by (simp add: docId_def docId_spec_def replace_all_def)
  moreover have "length (docId filename) = length filename"
    by (simp add: docId_def replace_all_def)
  moreover have "CHR ''/'' \<notin> set (docId filename)" "CHR ''.'' \<notin> set (docId filename)"
    by (auto simp: docId_def replace_all_def)
  moreover have "case post_upload opts env part of
      (response, objects) \<Rightarrow>
        (case upload_json response of
           UploadOk stored_name message doc \<Rightarrow>
             doc = docId stored_name \<and> map fst objects = [stored_name]
         | UploadError m \<Rightarrow> objects = [])"
    by (simp add: post_upload_def Let_def
        split: sum.splits option.splits storage_outcome.splits)
  ultimately show ?thesis by simp
qed

lemma docId_example: "docId ''uploads/1757500000000_k3x9q.mp3'' = ''uploads_1757500000000_k3x9q_mp3''"
  by code_simp

text \<open>
  Claim C8: the cap is 50 * 1024 * 1024 = 52428800 bytes, it is the file size limit of the
  upload middleware, and a request whose file is longer is answered with status 500
  without any object being written to the bucket, so that no analysis is triggered.
\<close>

theorem upload_enforces_size_cap:
  "MAX_FILE_SIZE = 52428800 \<and> limits_fileSize upload = 50 * 1024 * 1024 \<and>
   (MAX_FILE_SIZE < length (buffer f) \<longrightarrow>
      upload_status (fst (post_upload upload env (Some f))) = 500 \<and>
      snd (post_upload upload env (Some f)) = [])"
  using fileFilter_cases[of "originalname f"]
  by (auto simp: MAX_FILE_SIZE_def upload_def post_upload_def multer_single_def)

text \<open>The cap at a file of 52428801 bytes with an allowed extension.\<close>

theorem upload_enforces_size_cap_witness:
  "MAX_FILE_SIZE < length (buffer oversized_file) \<and>
   upload_status (fst (post_upload upload example_env (Some oversized_file))) = 500 \<and>
   snd (post_upload upload example_env (Some oversized_file)) = []"
  using upload_enforces_size_cap[of oversized_file example_env]
  by (simp add: oversized_file_def)

lemma upload_below_cap_is_stored:
  assumes "fileFilter (originalname f) = Inr True" "length (buffer f) < MAX_FILE_SIZE"
    "storage env = Finish"
  shows "post_upload upload env (Some f) =
           (\<lparr>upload_status = 200,
             upload_json = UploadOk (upload_filename env f)
               ''File uploaded successfully! Analysis will begin shortly.''
               (docId (upload_filename env f))\<rparr>,
            [(upload_filename env f, buffer f)])"
  using assms by (simp add: post_upload_def multer_single_def upload_def Let_def)

section \<open>Properties of \<open>GET /api/results\<close>\<close>

lemma set_insert_by: "set (insert_by cmp x ys) = insert x (set ys)"
  by (induction ys) auto

lemma sorted_insert_by:
  assumes total: "\<And>a b. 0 < cmp a b \<Longrightarrow> cmp b a \<le> 0"
    and trans: "\<And>a b c. cmp a b \<le> 0 \<Longrightarrow> cmp b c \<le> 0 \<Longrightarrow> cmp a c \<le> 0"
    and sorted: "sorted_wrt (\<lambda>a b. cmp a b \<le> 0) ys"
  shows "sorted_wrt (\<lambda>a b. cmp a b \<le> 0) (insert_by cmp x ys)"
  using sorted
proof (induction ys)
  case Nil
  then show ?case by simp
next
  case (Cons y ys)
  show ?case
  proof (cases "cmp x y \<le> 0")
    case True
    have "\<forall>z\<in>set ys. cmp x z \<le> 0"
      using Cons.prems True trans by auto
    with True Cons.prems show ?thesis by simp
  next
    case False
    then have "cmp y x \<le> 0" using total[of x y] by simp
    with False Cons show ?thesis by (auto simp: set_insert_by)
  qed
qed

lemma sorted_array_sort:
  assumes "\<And>a b. 0 < cmp a b \<Longrightarrow> cmp b a \<le> 0"
    and "\<And>a b c. cmp a b \<le> 0 \<Longrightarrow> cmp b c \<le> 0 \<Longrightarrow> cmp a c \<le> 0"
  shows "sorted_wrt (\<lambda>a b. cmp a b \<le> 0) (array_sort cmp xs)"
  unfolding array_sort_def
  by (induction xs) (simp_all add: sorted_insert_by[OF assms])

lemma length_array_sort: "length (array_sort cmp xs) = length xs"
proof -
  have "length (insert_by cmp x ys) = Suc (length ys)" for x and ys :: "'a list"
    by (induction ys) auto
  then show ?thesis unfolding array_sort_def by (induction xs) auto
qed

lemma set_array_sort: "set (array_sort cmp xs) = set xs"
  unfolding array_sort_def by (induction xs) (auto simp: set_insert_by)

lemma api_results_sorted_by_date:
  assumes "\<And>x y. 0 < localeCompare x y \<Longrightarrow> localeCompare y x \<le> 0"
    and "\<And>x y z. localeCompare x y \<le> 0 \<Longrightarrow> localeCompare y z \<le> 0 \<Longrightarrow> localeCompare x z \<le> 0"
  shows "sorted_wrt (\<lambda>a b. by_date localeCompare a b \<le> 0)
           (results_json (api_results localeCompare toISOString fetched))"
proof (cases fetched)
  case (FetchFailed m)
  then show ?thesis by (simp add: api_results_def)
next
  case (Snapshot docs)
  have "sorted_wrt (\<lambda>a b. by_date localeCompare a b \<le> 0)
          (array_sort (by_date localeCompare) (collect_results toISOString docs))"
    by (rule sorted_array_sort) (auto simp: by_date_def intro: assms)
  with Snapshot show ?thesis by (simp add: api_results_def)
qed

lemma localeCompare_alnum_le:
  "localeCompare_alnum x y \<le> 0 \<longleftrightarrow>
     toLowerCase x < toLowerCase y \<or> (toLowerCase x = toLowerCase y \<and> y \<le> x)"
  by (auto simp: localeCompare_alnum_def Let_def)

lemma localeCompare_alnum_total:
  "0 < localeCompare_alnum x y \<Longrightarrow> localeCompare_alnum y x \<le> 0"
  by (auto simp: localeCompare_alnum_def Let_def split: if_splits)

lemma localeCompare_alnum_trans:
  "localeCompare_alnum x y \<le> 0 \<Longrightarrow> localeCompare_alnum y z \<le> 0 \<Longrightarrow>
   localeCompare_alnum x z \<le> 0"
  unfolding localeCompare_alnum_le by auto

text \<open>
  Claim C9, as stated, at three documents whose \<open>processed_at\<close> are \<open>a\<close>, missing and
  \<open>B\<close>: the collation puts \<open>B\<close> after \<open>a\<close>, so the served list begins \<open>B\<close>, \<open>a\<close>, which
  is not non-increasing in the lexicographic order of the code units (\<open>B\<close> is below \<open>a\<close>
  there).
\<close>

theorem api_results_not_in_code_unit_order:
  "\<not> lexicographically_descending
       (results_json (api_results localeCompare_alnum example_toISOString (Snapshot mixed_case_docs)))"
  by code_simp

text \<open>
  Claim C9, amended: the served list is sorted in non-increasing order of \<open>processed_at\<close>
  as \<open>localeCompare\<close> orders strings (of two records, the later one never compares above
  the earlier one), a record without \<open>processed_at\<close> being compared as the empty string,
  so that no record that follows it compares above the empty string. The comparison is the
  platform's collation, taken here as any consistent comparator.
\<close>

theorem api_results_sorted_by_localeCompare:
  assumes "\<And>x y. 0 < localeCompare x y \<Longrightarrow> localeCompare y x \<le> 0"
    and "\<And>x y z. localeCompare x y \<le> 0 \<Longrightarrow> localeCompare y z \<le> 0 \<Longrightarrow> localeCompare x z \<le> 0"
  shows "sorted_wrt (\<lambda>a b. localeCompare (or_empty (processed_at (result_data b)))
                                        (or_empty (processed_at (result_data a))) \<le> 0)
           (results_json (api_results localeCompare toISOString fetched)) \<and>
         sorted_wrt (\<lambda>a b. processed_at (result_data a) = None \<longrightarrow>
                            localeCompare (or_empty (processed_at (result_data b))) '''' \<le> 0)
           (results_json (api_results localeCompare toISOString fetched))"
proof -
  have sorted: "sorted_wrt (\<lambda>a b. localeCompare (or_empty (processed_at (result_data b)))
                                        (or_empty (processed_at (result_data a))) \<le> 0)
           (results_json (api_results localeCompare toISOString fetched))"
    using api_results_sorted_by_date[of localeCompare toISOString fetched, OF assms]
    by (simp add: by_date_def date_key_def)
  then have "sorted_wrt (\<lambda>a b. processed_at (result_data a) = None \<longrightarrow>
                            localeCompare (or_empty (processed_at (result_data b))) '''' \<le> 0)
           (results_json (api_results localeCompare toISOString fetched))"
    by (rule sorted_wrt_mono_rel[rotated]) (auto simp: or_empty_def)
  with sorted show ?thesis by simp
qed

text \<open>
  The amended claim at the three documents \<open>a\<close>, missing and \<open>B\<close>, under the collation of
  letters and digits: the served list is \<open>B\<close>, \<open>a\<close>, then the record without
  \<open>processed_at\<close>.
\<close>

theorem api_results_sorted_by_localeCompare_witness:
  "sorted_wrt (\<lambda>a b. localeCompare_alnum (or_empty (processed_at (result_data b)))
                                           (or_empty (processed_at (result_data a))) \<le> 0)
     (results_json (api_results localeCompare_alnum example_toISOString (Snapshot mixed_case_docs))) \<and>
   map result_id
     (results_json (api_results localeCompare_alnum example_toISOString (Snapshot mixed_case_docs))) =
     [''3'', ''1'', ''2''] \<and>
   map date_key
     (results_json (api_results localeCompare_alnum example_toISOString (Snapshot mixed_case_docs))) =
     [''B'', ''a'', '''']"
proof -
  have order: "map result_id
     (results_json (api_results localeCompare_alnum example_toISOString (Snapshot mixed_case_docs))) =
     [''3'', ''1'', ''2'']"
    "map date_key
     (results_json (api_results localeCompare_alnum example_toISOString (Snapshot mixed_case_docs))) =
     [''B'', ''a'', '''']"
    by code_simp+
  from api_results_sorted_by_localeCompare[of localeCompare_alnum example_toISOString
      "Snapshot mixed_case_docs", OF localeCompare_alnum_total localeCompare_alnum_trans] order
  show ?thesis by simp
qed

lemma api_results_dated_example:
  "map result_id
     (results_json (api_results localeCompare_alnum example_toISOString (Snapshot dated_docs))) =
     [''5'', ''2'', ''4'', ''1'']"
  "map result_id
     (results_json (api_results compare_code_units example_toISOString (Snapshot dated_docs))) =
     [''5'', ''2'', ''4'', ''1'']"
  by code_simp+

lemma api_results_lexicographic_when_collation_is_code_unit_order:
  assumes "\<And>x y. (localeCompare x y \<le> 0) = (x \<le> y)"
  shows "lexicographically_descending
           (results_json (api_results localeCompare toISOString fetched))"
proof -
  have "sorted_wrt (\<lambda>a b. by_date localeCompare a b \<le> 0)
          (results_json (api_results localeCompare toISOString fetched))"
  proof (rule api_results_sorted_by_date)
    fix x y :: string
    assume "0 < localeCompare x y"
    then have "\<not> x \<le> y" using assms[of x y] by simp
    then show "localeCompare y x \<le> 0" using assms[of y x] by simp
  next
    fix x y z :: string
    assume "localeCompare x y \<le> 0" "localeCompare y z \<le> 0"
    then have "x \<le> z" using assms[of x y] assms[of y z] by simp
    then show "localeCompare x z \<le> 0" using assms[of x z] by simp
  qed
  then show ?thesis
    by (simp add: lexicographically_descending_def by_date_def assms)
qed

lemma api_results_holds_the_readable_documents:
  "set (results_json (api_results localeCompare toISOString (Snapshot docs))) =
     set (collect_results toISOString docs) \<and>
   length (results_json (api_results localeCompare toISOString (Snapshot docs))) =
     length (collect_results toISOString docs)"
  by (simp add: api_results_def set_array_sort length_array_sort)

text \<open>
  Claim C10: when fetching the stored analyses fails, the answer is status 200 with the
  empty list; the status is 200 and the body a list whatever the fetch gives.
\<close>

theorem api_results_fetch_failure_gives_empty_list:
  "api_results localeCompare toISOString (FetchFailed m) =
     \<lparr>results_status = 200, results_json = []\<rparr> \<and>
   results_status (api_results localeCompare toISOString fetched) = 200"
  by (simp add: api_results_def split: fetch.splits)

section \<open>Properties of the results page\<close>

lemma renderResults_Nil: "renderResults toFixed toLocaleString [] = ''''"
  by (simp add: renderResults_def)

lemma renderResults_Cons:
  "renderResults toFixed toLocaleString (r # rs) =
     (if truthy (error (result_data r)) then createErrorCard toLocaleString r
      else createResultCard toFixed toLocaleString r) @
     renderResults toFixed toLocaleString rs"
  by (simp add: renderResults_def)

lemma renderResults_error_card:
  "truthy (error (result_data r)) \<Longrightarrow>
   renderResults toFixed toLocaleString [r] = createErrorCard toLocaleString r"
  by (simp add: renderResults_def)

lemma renderResults_result_card:
  "error (result_data r) = None \<Longrightarrow>
   renderResults toFixed toLocaleString [r] = createResultCard toFixed toLocaleString r"
  by (simp add: renderResults_def truthy_def)

lemma createErrorCard_shows_message:
  "\<exists>before after.
     createErrorCard toLocaleString r = before @ escapeHtml (error (result_data r)) @ after"
  unfolding createErrorCard_def Let_def
  by (metis append.assoc)

text \<open>
  Claim C5 at the record of a failed analysis whose message is the empty string: the
  \<open>error\<close> field is set, and the page renders the regular result card, not the error card.
\<close>

theorem renderResults_empty_error_message:
  "error (result_data empty_error_result) = Some '''' \<and>
   renderResults toFixed toLocaleString [empty_error_result] =
     createResultCard toFixed toLocaleString empty_error_result \<and>
   renderResults toFixed toLocaleString [empty_error_result] \<noteq>
     createErrorCard toLocaleString empty_error_result"
  by (simp add: renderResults_def empty_error_result_def truthy_def createResultCard_def
      createErrorCard_def escapeHtml_def escapeHtml_char_def)

section \<open>Properties of the event trigger\<close>

text \<open>
  Claim C7: the trigger of the analysis function is configured with the policy
  \<open>RETRY_POLICY_DO_NOT_RETRY\<close>; under it an event causes one invocation whatever its
  outcome, so a failed analysis is not run again.
\<close>

theorem event_trigger_never_retries:
  "trigger_retry_policy (audio_analysis_event_trigger var) = RETRY_POLICY_DO_NOT_RETRY \<and>
   deliveries (trigger_retry_policy (audio_analysis_event_trigger var)) (ok # later) = [ok] \<and>
   length (deliveries (trigger_retry_policy (audio_analysis_event_trigger var)) outcomes) \<le> 1"
  by (cases outcomes) (simp_all add: audio_analysis_event_trigger_def)

lemma deliveries_retry_example:
  "deliveries RETRY_POLICY_RETRY [False, False, True, True] = [False, False, True]"
  "deliveries RETRY_POLICY_DO_NOT_RETRY [False, False, True, True] = [False]"
  by simp_all

end
